theory Spec2Isabelle
  imports Complex_Main
begin

section \<open>The B2C user flow resource (internal/services/b2cuserflow/userflow_resource.go)\<close>

text \<open>
  The resource is a CRUD adapter: four lifecycle operations over a handle \<open>d\<close> to the
  locally persisted data and a remote API client. The embedding passes both explicitly:
  every operation takes the resource data and the client-side environment and returns
  its diagnostics together with the updated resource data and environment. A nil
  dereference of the source is the outcome \<open>Panics\<close>. The context argument is only
  passed on by the source, and the debug lines written with \<open>log.Printf\<close> are left out.
\<close>

subsection \<open>Errors and the remote entity\<close>

text \<open>
  A Go \<open>error\<close> value. \<open>errors_New\<close> is \<open>errors.New\<close>; \<open>fmt_Errorf\<close> keeps the
  format string, the identifier argument and the wrapped cause of the importer's
  \<open>fmt.Errorf\<close> call; the two remaining constructors are the errors of the waiter
  and of the UUID parser.
\<close>

datatype error =
    errors_New string
  | fmt_Errorf string string error
  | DeadlineElapsed
  | NotAUUID

text \<open>HTTP status codes are Go \<open>int\<close>s; \<open>http.StatusNotFound\<close> is 404.\<close>

type_synonym status = int

definition StatusNotFound :: status where
  "StatusNotFound = 404"

text \<open>
  \<open>msgraph.B2CUserFlow\<close>, with the five pointer fields the source uses; a nil pointer is
  \<open>None\<close>. The type \<open>'f\<close> stands for the floating-point numbers: a \<open>float32\<close> is kept as
  the number it denotes, and the rounding \<open>float32(_)\<close> of Create is a parameter.
\<close>

record 'f B2CUserFlow =
  ID :: "string option"
  UserFlowType :: "string option"
  UserFlowTypeVersion :: "'f option"
  DefaultLanguageTag :: "string option"
  IsLanguageCustomizationEnabled :: "bool option"

subsection \<open>The resource data \<open>d\<close>\<close>

text \<open>
  The schema of the resource (lines 46 to 87) fixes six typed attributes, so the
  attribute values are a record and the type assertions of \<open>d.Get(key).(T)\<close> cannot fail.
  An unset optional attribute reads as the zero value of its type.
\<close>

record 'f attrs =
  object_id :: string
  name :: string
  user_flow_type :: string
  user_flow_type_version :: 'f
  default_language_tag :: string
  is_language_customization_enabled :: bool

text \<open>
  \<open>d_Id\<close> is what \<open>d.Id()\<close> returns; \<open>old_values\<close> are the previously persisted
  attribute values and \<open>new_values\<close> the values \<open>d.Get\<close> returns (the configuration,
  overwritten by what has been set during the operation).
\<close>

record 'f ResourceData =
  d_Id :: string
  old_values :: "'f attrs"
  new_values :: "'f attrs"

definition SetId :: "string \<Rightarrow> 'f ResourceData \<Rightarrow> 'f ResourceData" where
  "SetId v d = d\<lparr>d_Id := v\<rparr>"

text \<open>\<open>d.HasChange(key)\<close>: the old and the new value of the attribute differ.\<close>

definition HasChange :: "'f ResourceData \<Rightarrow> string \<Rightarrow> bool" where
  "HasChange d key =
     (if key = ''object_id'' then object_id (old_values d) \<noteq> object_id (new_values d)
      else if key = ''name'' then name (old_values d) \<noteq> name (new_values d)
      else if key = ''user_flow_type''
        then user_flow_type (old_values d) \<noteq> user_flow_type (new_values d)
      else if key = ''user_flow_type_version''
        then user_flow_type_version (old_values d) \<noteq> user_flow_type_version (new_values d)
      else if key = ''default_language_tag''
        then default_language_tag (old_values d) \<noteq> default_language_tag (new_values d)
      else if key = ''is_language_customization_enabled''
        then is_language_customization_enabled (old_values d)
               \<noteq> is_language_customization_enabled (new_values d)
      else False)"

text \<open>
  Modelled from the spec: \<open>tf.Set\<close> (internal/tf, not among the sources) copies a remote
  field into the local state verbatim. One setter per attribute the source sets.
\<close>

definition Set_object_id :: "string \<Rightarrow> 'f ResourceData \<Rightarrow> 'f ResourceData" where
  "Set_object_id v d = d\<lparr>new_values := (new_values d)\<lparr>object_id := v\<rparr>\<rparr>"

definition Set_user_flow_type :: "string \<Rightarrow> 'f ResourceData \<Rightarrow> 'f ResourceData" where
  "Set_user_flow_type v d = d\<lparr>new_values := (new_values d)\<lparr>user_flow_type := v\<rparr>\<rparr>"

definition Set_user_flow_type_version :: "'f \<Rightarrow> 'f ResourceData \<Rightarrow> 'f ResourceData" where
  "Set_user_flow_type_version v d =
     d\<lparr>new_values := (new_values d)\<lparr>user_flow_type_version := v\<rparr>\<rparr>"

definition Set_default_language_tag :: "string \<Rightarrow> 'f ResourceData \<Rightarrow> 'f ResourceData" where
  "Set_default_language_tag v d =
     d\<lparr>new_values := (new_values d)\<lparr>default_language_tag := v\<rparr>\<rparr>"

definition Set_is_language_customization_enabled ::
    "bool \<Rightarrow> 'f ResourceData \<Rightarrow> 'f ResourceData" where
  "Set_is_language_customization_enabled v d =
     d\<lparr>new_values := (new_values d)\<lparr>is_language_customization_enabled := v\<rparr>\<rparr>"

subsection \<open>Diagnostics and outcomes\<close>

text \<open>
  \<open>tf.ErrorDiagF\<close> and \<open>tf.ErrorDiagPathF\<close> build a one-element \<open>diag.Diagnostics\<close>. The
  embedding keeps each call as it is written: the error, the attribute path, the format
  string and the arguments, without evaluating the format.
\<close>

datatype 'f arg =
    ArgString string
  | ArgInt int
  | ArgUserflow "'f B2CUserFlow"

datatype 'f diagnostic =
    ErrorDiagF error string "'f arg list"
  | ErrorDiagPathF error string string "'f arg list"

datatype 'f outcome =
    ReturnNil
  | ReturnDiags "'f diagnostic"
  | Panics

subsection \<open>The remote API client\<close>

text \<open>
  The client (\<open>msgraph.B2CUserFlowClient\<close>) is a parameter: four functions over an
  arbitrary remote state \<open>'w\<close>, each given the client's \<open>DisableRetries\<close> flag. The
  environment holds the remote state, the flag and the list of the calls made so far.
\<close>

record ('f, 'w) UserFlowClient =
  api_Create :: "bool \<Rightarrow> 'f B2CUserFlow \<Rightarrow> 'w
                   \<Rightarrow> ('f B2CUserFlow option \<times> status \<times> error option) \<times> 'w"
  api_Get :: "bool \<Rightarrow> string \<Rightarrow> 'w
                \<Rightarrow> ('f B2CUserFlow option \<times> status \<times> error option) \<times> 'w"
  api_Update :: "bool \<Rightarrow> 'f B2CUserFlow \<Rightarrow> 'w \<Rightarrow> (status \<times> error option) \<times> 'w"
  api_Delete :: "bool \<Rightarrow> string \<Rightarrow> 'w \<Rightarrow> (status \<times> error option) \<times> 'w"

datatype 'f call =
    CallCreate "'f B2CUserFlow"
  | CallGet string
  | CallUpdate "'f B2CUserFlow"
  | CallDelete string

record ('f, 'w) env =
  remote :: 'w
  DisableRetries :: bool
  calls :: "'f call list"

definition client_Create ::
    "('f, 'w) UserFlowClient \<Rightarrow> 'f B2CUserFlow \<Rightarrow> ('f, 'w) env
       \<Rightarrow> ('f B2CUserFlow option \<times> status \<times> error option) \<times> ('f, 'w) env" where
  "client_Create client userflow e =
     (case api_Create client (DisableRetries e) userflow (remote e) of
        (r, w) \<Rightarrow> (r, e\<lparr>remote := w, calls := calls e @ [CallCreate userflow]\<rparr>))"

definition client_Get ::
    "('f, 'w) UserFlowClient \<Rightarrow> string \<Rightarrow> ('f, 'w) env
       \<Rightarrow> ('f B2CUserFlow option \<times> status \<times> error option) \<times> ('f, 'w) env" where
  "client_Get client objectId e =
     (case api_Get client (DisableRetries e) objectId (remote e) of
        (r, w) \<Rightarrow> (r, e\<lparr>remote := w, calls := calls e @ [CallGet objectId]\<rparr>))"

definition client_Update ::
    "('f, 'w) UserFlowClient \<Rightarrow> 'f B2CUserFlow \<Rightarrow> ('f, 'w) env
       \<Rightarrow> (status \<times> error option) \<times> ('f, 'w) env" where
  "client_Update client userflow e =
     (case api_Update client (DisableRetries e) userflow (remote e) of
        (r, w) \<Rightarrow> (r, e\<lparr>remote := w, calls := calls e @ [CallUpdate userflow]\<rparr>))"

definition client_Delete ::
    "('f, 'w) UserFlowClient \<Rightarrow> string \<Rightarrow> ('f, 'w) env
       \<Rightarrow> (status \<times> error option) \<times> ('f, 'w) env" where
  "client_Delete client objectId e =
     (case api_Delete client (DisableRetries e) objectId (remote e) of
        (r, w) \<Rightarrow> (r, e\<lparr>remote := w, calls := calls e @ [CallDelete objectId]\<rparr>))"

subsection \<open>Read (lines 147 to 168)\<close>

text \<open>
  The five \<open>tf.Set\<close> lines run in order, each dereferencing one pointer of the entity:
  a nil pointer panics after the earlier attributes have been set.
\<close>

definition set_fields ::
    "'f B2CUserFlow \<Rightarrow> 'f ResourceData \<Rightarrow> 'f outcome \<times> 'f ResourceData" where
  "set_fields userflow d =
     (case ID userflow of None \<Rightarrow> (Panics, d) | Some v1 \<Rightarrow>
       (let d1 = Set_object_id v1 d in
        (case UserFlowType userflow of None \<Rightarrow> (Panics, d1) | Some v2 \<Rightarrow>
          (let d2 = Set_user_flow_type v2 d1 in
           (case UserFlowTypeVersion userflow of None \<Rightarrow> (Panics, d2) | Some v3 \<Rightarrow>
             (let d3 = Set_user_flow_type_version v3 d2 in
              (case DefaultLanguageTag userflow of None \<Rightarrow> (Panics, d3) | Some v4 \<Rightarrow>
                (let d4 = Set_default_language_tag v4 d3 in
                 (case IsLanguageCustomizationEnabled userflow of
                    None \<Rightarrow> (Panics, d4)
                  | Some v5 \<Rightarrow>
                      (ReturnNil, Set_is_language_customization_enabled v5 d4))))))))))"

definition b2cuserflowResourceRead ::
    "('f, 'w) UserFlowClient \<Rightarrow> 'f ResourceData \<Rightarrow> ('f, 'w) env
       \<Rightarrow> 'f outcome \<times> 'f ResourceData \<times> ('f, 'w) env" where
  "b2cuserflowResourceRead client d e =
     (let objectId = d_Id d in
      case client_Get client objectId e of
        ((userflow, status, err), e1) \<Rightarrow>
          (case err of
             Some er \<Rightarrow>
               if status = StatusNotFound then (ReturnNil, SetId [] d, e1)
               else (ReturnDiags (ErrorDiagF er
                       ''Retrieving userflow with object ID: %q'' [ArgString objectId]), d, e1)
           | None \<Rightarrow>
               (case userflow of
                  None \<Rightarrow> (Panics, d, e1)
                | Some u \<Rightarrow> (case set_fields u d of (r, d') \<Rightarrow> (r, d', e1)))))"

subsection \<open>Create (lines 91 to 116)\<close>

text \<open>
  \<open>float32\<close> is the conversion of the configured \<open>float64\<close> version.
  \<open>fmt.Sprintf("B2C_1_%s", name)\<close> is the concatenation of the prefix and the name.
\<close>

definition b2cuserflowResourceCreate ::
    "('f \<Rightarrow> 'f) \<Rightarrow> ('f, 'w) UserFlowClient \<Rightarrow> 'f ResourceData \<Rightarrow> ('f, 'w) env
       \<Rightarrow> 'f outcome \<times> 'f ResourceData \<times> ('f, 'w) env" where
  "b2cuserflowResourceCreate float32 client d e =
     (let name' = name (new_values d);
          userflowType = user_flow_type (new_values d);
          userflowTypeVersion = float32 (user_flow_type_version (new_values d));
          defaultTag = default_language_tag (new_values d);
          isLanguageCustomizationEnabled = is_language_customization_enabled (new_values d);
          userflow = \<lparr>ID = Some name',
                      UserFlowType = Some userflowType,
                      UserFlowTypeVersion = Some userflowTypeVersion,
                      DefaultLanguageTag = Some defaultTag,
                      IsLanguageCustomizationEnabled = Some isLanguageCustomizationEnabled\<rparr>
      in
      case client_Create client userflow e of
        ((userflowResp, status, err), e1) \<Rightarrow>
          (case err of
             Some er \<Rightarrow>
               (ReturnDiags (ErrorDiagF er ''Creating userflow %+v'' [ArgUserflow userflow]),
                d, e1)
           | None \<Rightarrow>
               (case userflowResp of
                  None \<Rightarrow> (Panics, d, e1)
                | Some resp \<Rightarrow>
                    if ID resp = None \<or> ID resp = Some []
                    then (ReturnDiags (ErrorDiagF (errors_New ''API returned nil object ID'')
                            ''Bad API Response'' []), d, e1)
                    else b2cuserflowResourceRead client (SetId (''B2C_1_'' @ name') d) e1)))"

subsection \<open>Update (lines 118 to 145)\<close>

definition b2cuserflowResourceUpdate ::
    "('f, 'w) UserFlowClient \<Rightarrow> 'f ResourceData \<Rightarrow> ('f, 'w) env
       \<Rightarrow> 'f outcome \<times> 'f ResourceData \<times> ('f, 'w) env" where
  "b2cuserflowResourceUpdate client d e =
     (if HasChange d ''user_flow_type''
      then (ReturnDiags (ErrorDiagF (errors_New ''Cannot update user_flow_type'')
              ''Cannot update user_flow_type'' []), d, e)
      else if HasChange d ''user_flow_type_version''
      then (ReturnDiags (ErrorDiagF (errors_New ''Cannot update user_flow_type_version'')
              ''Cannot update user_flow_type_version'' []), d, e)
      else if HasChange d ''name''
      then (ReturnDiags (ErrorDiagF (errors_New ''Cannot update name'')
              ''Cannot update name'' []), d, e)
      else
        (let objectId = d_Id d;
             defaultTag = default_language_tag (new_values d);
             isLanguageCustomizationEnabled = is_language_customization_enabled (new_values d);
             userflow = \<lparr>ID = Some objectId,
                         UserFlowType = None,
                         UserFlowTypeVersion = None,
                         DefaultLanguageTag = Some defaultTag,
                         IsLanguageCustomizationEnabled = Some isLanguageCustomizationEnabled\<rparr>
         in
         case client_Update client userflow e of
           ((status, err), e1) \<Rightarrow>
             (case err of
                Some er \<Rightarrow>
                  (ReturnDiags (ErrorDiagF er ''Could not update userflow with ID: %q''
                     [ArgString (d_Id d)]), d, e1)
              | None \<Rightarrow> b2cuserflowResourceRead client d e1)))"

subsection \<open>Delete (lines 170 to 200)\<close>

text \<open>
  The closure handed to the waiter (lines 186 to 195). It captures the client and the
  identifier only, so it runs on the environment and cannot reach the resource data.
  Its Go result \<open>(*bool, error)\<close> is \<open>Inr b\<close> for \<open>(&b, nil)\<close> and \<open>Inl err\<close> for
  \<open>(nil, err)\<close>.
\<close>

type_synonym ('f, 'w) ChangeFunc = "('f, 'w) env \<Rightarrow> (error + bool) \<times> ('f, 'w) env"

definition deletion_probe ::
    "('f, 'w) UserFlowClient \<Rightarrow> string \<Rightarrow> ('f, 'w) ChangeFunc" where
  "deletion_probe client objectId e =
     (let e0 = e\<lparr>DisableRetries := True\<rparr> in
      case client_Get client objectId e0 of
        ((userflow, status, err), e1) \<Rightarrow>
          (case err of
             Some er \<Rightarrow>
               if status = StatusNotFound then (Inr False, e1) else (Inl er, e1)
           | None \<Rightarrow> (Inr True, e1)))"

text \<open>
  \<open>helpers.WaitForDeletion\<close> is not among the sources, so Delete takes the waiter as a
  parameter: a function from the probe and the environment to the waiter's error (nil is
  \<open>None\<close>) and the environment it leaves.
\<close>

type_synonym ('f, 'w) waiter =
  "('f, 'w) ChangeFunc \<Rightarrow> ('f, 'w) env \<Rightarrow> error option \<times> ('f, 'w) env"

definition b2cuserflowResourceDelete ::
    "('f, 'w) waiter \<Rightarrow> ('f, 'w) UserFlowClient \<Rightarrow> 'f ResourceData \<Rightarrow> ('f, 'w) env
       \<Rightarrow> 'f outcome \<times> 'f ResourceData \<times> ('f, 'w) env" where
  "b2cuserflowResourceDelete wait client d e =
     (let objectId = d_Id d in
      case client_Delete client objectId e of
        ((status, err), e1) \<Rightarrow>
          (case err of
             Some er \<Rightarrow>
               if status = StatusNotFound then (ReturnNil, SetId [] d, e1)
               else (ReturnDiags (ErrorDiagPathF er ''id''
                       ''Deleting userflow with object ID %q, got status %d''
                       [ArgString objectId, ArgInt status]), d, e1)
           | None \<Rightarrow>
               (case wait (deletion_probe client objectId) e1 of
                  (Some er, e2) \<Rightarrow>
                    (ReturnDiags (ErrorDiagF er
                       ''Waiting for deletion of userflow with object ID %q''
                       [ArgString objectId]), d, e2)
                | (None, e2) \<Rightarrow> (ReturnNil, d, e2))))"

text \<open>
  Modelled from the spec: \<open>helpers.WaitForDeletion\<close> (internal/helpers, not among the
  sources). Section 4.2: the waiter invokes the probe repeatedly; it succeeds when the
  probe reports "gone", and fails when the probe returns an error or the context deadline
  elapses. The deadline is the number of probes it leaves time for.
\<close>

fun WaitForDeletion :: "nat \<Rightarrow> ('f, 'w) waiter" where
  "WaitForDeletion 0 f e = (Some DeadlineElapsed, e)"
| "WaitForDeletion (Suc n) f e =
     (case f e of
        (Inl er, e1) \<Rightarrow> (Some er, e1)
      | (Inr stillExists, e1) \<Rightarrow>
          if stillExists then WaitForDeletion n f e1 else (None, e1))"

subsection \<open>The importer (lines 39 to 44)\<close>

text \<open>
  Modelled from the spec: \<open>uuid.ParseUUID\<close> (github.com/hashicorp/go-uuid, not among the
  sources) accepts the well-formed UUIDs: 36 characters, a hyphen at the
  positions 8, 13, 18 and 23, and hexadecimal digits everywhere else.
\<close>

definition is_hex :: "char \<Rightarrow> bool" where
  "is_hex c = (c \<in> set ''0123456789abcdefABCDEF'')"

definition ParseUUID :: "string \<Rightarrow> error option" where
  "ParseUUID uuid =
     (if length uuid \<noteq> 36 then Some NotAUUID
      else if uuid ! 8 \<noteq> CHR ''-'' \<or> uuid ! 13 \<noteq> CHR ''-''
              \<or> uuid ! 18 \<noteq> CHR ''-'' \<or> uuid ! 23 \<noteq> CHR ''-'' then Some NotAUUID
      else if list_all is_hex
                (take 8 uuid @ take 4 (drop 9 uuid) @ take 4 (drop 14 uuid)
                   @ take 4 (drop 19 uuid) @ take 12 (drop 24 uuid))
      then None else Some NotAUUID)"

text \<open>The function given to \<open>tf.ValidateResourceIDPriorToImport\<close>.\<close>

definition importer_validate :: "string \<Rightarrow> error option" where
  "importer_validate id' =
     (case ParseUUID id' of
        Some er \<Rightarrow> Some (fmt_Errorf ''specified ID (%q) is not valid: %s'' id' er)
      | None \<Rightarrow> None)"

text \<open>
  Modelled from the spec: \<open>tf.ValidateResourceIDPriorToImport\<close> (internal/tf, not among
  the sources) rejects the identifier before the import when the validation function
  returns an error, and imports it as it is otherwise.
\<close>

definition ValidateResourceIDPriorToImport ::
    "(string \<Rightarrow> error option) \<Rightarrow> string \<Rightarrow> error + string" where
  "ValidateResourceIDPriorToImport idValidator id' =
     (case idValidator id' of Some er \<Rightarrow> Inl er | None \<Rightarrow> Inr id')"

definition Importer :: "string \<Rightarrow> error + string" where
  "Importer = ValidateResourceIDPriorToImport importer_validate"

subsection \<open>Example clients\<close>

text \<open>
  A client that answers every call with a fixed response and has no remote state, and a
  resource data for the user flow \<open>promo\<close>; the examples below run the operations on them.
\<close>

definition fixed_client ::
    "('f B2CUserFlow option \<times> status \<times> error option)
       \<Rightarrow> ('f B2CUserFlow option \<times> status \<times> error option)
       \<Rightarrow> (status \<times> error option) \<Rightarrow> (status \<times> error option)
       \<Rightarrow> ('f, unit) UserFlowClient" where
  "fixed_client create_r get_r update_r delete_r =
     \<lparr>api_Create = (\<lambda>_ _ w. (create_r, w)),
      api_Get = (\<lambda>_ _ w. (get_r, w)),
      api_Update = (\<lambda>_ _ w. (update_r, w)),
      api_Delete = (\<lambda>_ _ w. (delete_r, w))\<rparr>"

definition promo_attrs :: "real attrs" where
  "promo_attrs =
     \<lparr>object_id = [], name = ''promo'', user_flow_type = ''signUp'',
      user_flow_type_version = 1, default_language_tag = ''en'',
      is_language_customization_enabled = False\<rparr>"

definition promo_entity :: "real B2CUserFlow" where
  "promo_entity =
     \<lparr>ID = Some ''B2C_1_promo'', UserFlowType = Some ''signUp'',
      UserFlowTypeVersion = Some 1, DefaultLanguageTag = Some ''en'',
      IsLanguageCustomizationEnabled = Some False\<rparr>"

definition promo_data :: "real ResourceData" where
  "promo_data = \<lparr>d_Id = ''B2C_1_promo'', old_values = promo_attrs, new_values = promo_attrs\<rparr>"

definition env0 :: "(real, unit) env" where
  "env0 = \<lparr>remote = (), DisableRetries = False, calls = []\<rparr>"

definition not_found :: "real B2CUserFlow option \<times> status \<times> error option" where
  "not_found = (None, 404, Some (errors_New ''not found''))"

definition server_error :: "real B2CUserFlow option \<times> status \<times> error option" where
  "server_error = (None, 500, Some (errors_New ''internal server error''))"

definition found :: "real B2CUserFlow option \<times> status \<times> error option" where
  "found = (Some promo_entity, 200, None)"

definition no_content :: "status \<times> error option" where
  "no_content = (204, None)"

definition fresh_data :: "real ResourceData" where
  "fresh_data = \<lparr>d_Id = [], old_values = promo_attrs, new_values = promo_attrs\<rparr>"

section \<open>Properties\<close>

subsection \<open>Auxiliary facts\<close>

lemma HasChange_user_flow_type:
  "HasChange d ''user_flow_type'' = (user_flow_type (old_values d) \<noteq> user_flow_type (new_values d))"
  by (simp add: HasChange_def)

lemma HasChange_user_flow_type_version:
  "HasChange d ''user_flow_type_version''
     = (user_flow_type_version (old_values d) \<noteq> user_flow_type_version (new_values d))"
  by (simp add: HasChange_def)

lemma HasChange_name:
  "HasChange d ''name'' = (name (old_values d) \<noteq> name (new_values d))"
  by (simp add: HasChange_def)

lemma client_Get_calls:
  "client_Get client objectId e = (r, e1) \<Longrightarrow> calls e1 = calls e @ [CallGet objectId]"
  by (auto simp: client_Get_def split: prod.splits)

lemma client_Get_flag:
  "client_Get client objectId e = (r, e1) \<Longrightarrow> DisableRetries e1 = DisableRetries e"
  by (auto simp: client_Get_def split: prod.splits)

lemma Read_calls:
  "calls (snd (snd (b2cuserflowResourceRead client d e))) = calls e @ [CallGet (d_Id d)]"
  by (auto simp: b2cuserflowResourceRead_def Let_def dest: client_Get_calls
           split: prod.splits option.splits)

lemma fixed_Get:
  "client_Get (fixed_client c g u dl) objectId e = (g, e\<lparr>calls := calls e @ [CallGet objectId]\<rparr>)"
  by (simp add: client_Get_def fixed_client_def)

lemma fixed_Create:
  "client_Create (fixed_client c g u dl) x e = (c, e\<lparr>calls := calls e @ [CallCreate x]\<rparr>)"
  by (simp add: client_Create_def fixed_client_def)

lemma fixed_Update:
  "client_Update (fixed_client c g u dl) x e = (u, e\<lparr>calls := calls e @ [CallUpdate x]\<rparr>)"
  by (simp add: client_Update_def fixed_client_def)

lemma fixed_Delete:
  "client_Delete (fixed_client c g u dl) objectId e
     = (dl, e\<lparr>calls := calls e @ [CallDelete objectId]\<rparr>)"
  by (simp add: client_Delete_def fixed_client_def)

lemma is_hex_underscore: "\<not> is_hex CHR ''_''"
  by (simp add: is_hex_def)

lemma take_prefixed: "take 8 (''B2C_1_'' @ n) = ''B2C_1_'' @ take 2 n"
  by simp

lemma not_hex_prefixed:
  "\<not> list_all is_hex (take 8 (''B2C_1_'' @ n) @ rest)"
  unfolding take_prefixed by (simp add: is_hex_underscore)

lemma ParseUUID_prefixed: "ParseUUID (''B2C_1_'' @ n) = Some NotAUUID"
  unfolding ParseUUID_def by (simp only: not_hex_prefixed if_False if_cancel)

subsection \<open>The lifecycle operations\<close>

text \<open>
  Claim C1, as the code has it. Delete returns success in both terminal non-error cases.
  When the remote API reports not-found for the identifier (an error with status 404), it
  sets the id to empty and returns nil, whatever the waiter is: the waiter is not invoked
  and the only call made is the deletion request. When the deletion request succeeds and
  the confirmation poll completes without error, it returns nil and leaves the resource
  data, the id included, as it was.
\<close>

theorem Delete_terminal_cases:
  assumes "client_Delete client (d_Id d) e = ((status, err), e1)"
  shows "(err \<noteq> None \<and> status = StatusNotFound \<longrightarrow>
            b2cuserflowResourceDelete wait client d e = (ReturnNil, d\<lparr>d_Id := []\<rparr>, e1)
          \<and> calls e1 = calls e @ [CallDelete (d_Id d)])
       \<and> (err = None \<and> wait (deletion_probe client (d_Id d)) e1 = (None, e2) \<longrightarrow>
            b2cuserflowResourceDelete wait client d e = (ReturnNil, d, e2))"
  using assms
  by (auto simp: b2cuserflowResourceDelete_def Let_def SetId_def client_Delete_def
           split: prod.splits)

text \<open>The statement above at concrete inputs.\<close>

theorem Delete_terminal_cases_witness:
  "b2cuserflowResourceDelete (WaitForDeletion (Suc (Suc 0)))
       (fixed_client found found no_content (404, Some (errors_New ''not found'')))
       promo_data env0
     = (ReturnNil, promo_data\<lparr>d_Id := []\<rparr>, env0\<lparr>calls := [CallDelete ''B2C_1_promo'']\<rparr>)
   \<and> b2cuserflowResourceDelete (WaitForDeletion (Suc (Suc 0)))
       (fixed_client found not_found no_content no_content) promo_data env0
     = (ReturnNil, promo_data,
        env0\<lparr>DisableRetries := True,
             calls := [CallDelete ''B2C_1_promo'', CallGet ''B2C_1_promo'']\<rparr>)"
proof -
  have d: "d_Id promo_data = ''B2C_1_promo''" by (simp add: promo_data_def)
  have dl1: "client_Delete
        (fixed_client found found no_content (404, Some (errors_New ''not found'')))
        (d_Id promo_data) env0
      = ((404, Some (errors_New ''not found'')), env0\<lparr>calls := [CallDelete ''B2C_1_promo'']\<rparr>)"
    by (simp add: fixed_Delete d env0_def)
  have dl2: "client_Delete (fixed_client found not_found no_content no_content)
        (d_Id promo_data) env0
      = ((204, None), env0\<lparr>calls := [CallDelete ''B2C_1_promo'']\<rparr>)"
    by (simp add: fixed_Delete no_content_def d env0_def)
  have w: "WaitForDeletion (Suc (Suc 0))
        (deletion_probe (fixed_client found not_found no_content no_content) (d_Id promo_data))
        (env0\<lparr>calls := [CallDelete ''B2C_1_promo'']\<rparr>)
      = (None,
         env0\<lparr>DisableRetries := True,
              calls := [CallDelete ''B2C_1_promo'', CallGet ''B2C_1_promo'']\<rparr>)"
    by (simp add: deletion_probe_def fixed_Get not_found_def d env0_def StatusNotFound_def)
  show ?thesis
    using Delete_terminal_cases [OF dl1, of "WaitForDeletion (Suc (Suc 0))"]
      Delete_terminal_cases [OF dl2, of "WaitForDeletion (Suc (Suc 0))"] w
    by (simp add: StatusNotFound_def)
qed

text \<open>
  Claim C1 as stated says that the id is empty after Delete in both cases. For the user
  flow \<open>B2C_1_promo\<close>, a deletion request that succeeds and a first probe that finds the
  entity gone, Delete returns nil and the id is not empty.
\<close>

theorem Delete_clears_id_counterexample:
  "fst (b2cuserflowResourceDelete (WaitForDeletion (Suc (Suc 0)))
          (fixed_client found not_found no_content no_content) promo_data env0) = ReturnNil
   \<and> d_Id (fst (snd (b2cuserflowResourceDelete (WaitForDeletion (Suc (Suc 0)))
          (fixed_client found not_found no_content no_content) promo_data env0)))
       \<noteq> []"
  by (simp add: b2cuserflowResourceDelete_def Let_def deletion_probe_def fixed_Delete fixed_Get
        not_found_def no_content_def promo_data_def env0_def StatusNotFound_def)

text \<open>
  Claim C2. When \<open>user_flow_type\<close>, \<open>user_flow_type_version\<close> or \<open>name\<close> has changed,
  Update returns the error "Cannot update" followed by the name of a field that did
  change, for every client; the resource data and the environment (the remote state and
  the list of calls) are returned as they were, so no call to the client is made.
\<close>

theorem Update_immutable_guard:
  assumes "HasChange d ''user_flow_type'' \<or> HasChange d ''user_flow_type_version''
             \<or> HasChange d ''name''"
  shows "\<exists>field \<in> {''user_flow_type'', ''user_flow_type_version'', ''name''}.
           HasChange d field
         \<and> b2cuserflowResourceUpdate client d e =
             (ReturnDiags (ErrorDiagF (errors_New (''Cannot update '' @ field))
                (''Cannot update '' @ field) []), d, e)"
proof (cases "HasChange d ''user_flow_type''")
  case True
  then have "b2cuserflowResourceUpdate client d e =
      (ReturnDiags (ErrorDiagF (errors_New (''Cannot update '' @ ''user_flow_type''))
         (''Cannot update '' @ ''user_flow_type'') []), d, e)"
    by (simp add: b2cuserflowResourceUpdate_def)
  with True show ?thesis by blast
next
  case nt: False
  show ?thesis
  proof (cases "HasChange d ''user_flow_type_version''")
    case True
    with nt have "b2cuserflowResourceUpdate client d e =
        (ReturnDiags (ErrorDiagF (errors_New (''Cannot update '' @ ''user_flow_type_version''))
           (''Cannot update '' @ ''user_flow_type_version'') []), d, e)"
      by (simp add: b2cuserflowResourceUpdate_def)
    with True show ?thesis by blast
  next
    case False
    with nt assms have n: "HasChange d ''name''" by blast
    with nt False have "b2cuserflowResourceUpdate client d e =
        (ReturnDiags (ErrorDiagF (errors_New (''Cannot update '' @ ''name''))
           (''Cannot update '' @ ''name'') []), d, e)"
      by (simp add: b2cuserflowResourceUpdate_def)
    with n show ?thesis by blast
  qed
qed

text \<open>The statement above at concrete inputs.\<close>

theorem Update_immutable_guard_witness:
  "HasChange (promo_data\<lparr>new_values := promo_attrs\<lparr>name := ''promo2''\<rparr>\<rparr>) ''name''
   \<and> b2cuserflowResourceUpdate (fixed_client found found no_content no_content)
        (promo_data\<lparr>new_values := promo_attrs\<lparr>name := ''promo2''\<rparr>\<rparr>) env0
     = (ReturnDiags (ErrorDiagF (errors_New ''Cannot update name'') ''Cannot update name'' []),
        promo_data\<lparr>new_values := promo_attrs\<lparr>name := ''promo2''\<rparr>\<rparr>, env0)"
proof -
  let ?d = "promo_data\<lparr>new_values := promo_attrs\<lparr>name := ''promo2''\<rparr>\<rparr>"
  have h: "HasChange ?d ''name''"
    by (simp add: HasChange_name promo_data_def promo_attrs_def)
  have n1: "\<not> HasChange ?d ''user_flow_type''"
    by (simp add: HasChange_user_flow_type promo_data_def promo_attrs_def)
  have n2: "\<not> HasChange ?d ''user_flow_type_version''"
    by (simp add: HasChange_user_flow_type_version promo_data_def promo_attrs_def)
  have "HasChange ?d ''user_flow_type'' \<or> HasChange ?d ''user_flow_type_version''
          \<or> HasChange ?d ''name''"
    using h by blast
  from Update_immutable_guard [OF this, of "fixed_client found found no_content no_content" env0]
  show ?thesis
    using h n1 n2 by auto
qed

text \<open>
  Claim C3. When the client's Create returns no error and an entity with a non-empty
  identifier, Create is the Read of the resource data whose id has been set to
  \<open>B2C_1_\<close> followed by the configured name, and the call that follows the creation
  request is the Get of that identifier.
\<close>

theorem Create_sets_id_then_reads:
  assumes "client_Create client
             \<lparr>ID = Some (name (new_values d)),
              UserFlowType = Some (user_flow_type (new_values d)),
              UserFlowTypeVersion = Some (float32 (user_flow_type_version (new_values d))),
              DefaultLanguageTag = Some (default_language_tag (new_values d)),
              IsLanguageCustomizationEnabled =
                Some (is_language_customization_enabled (new_values d))\<rparr> e
           = ((Some resp, status, None), e1)"
    and "ID resp = Some v" and "v \<noteq> []"
  shows "b2cuserflowResourceCreate float32 client d e =
           b2cuserflowResourceRead client (d\<lparr>d_Id := ''B2C_1_'' @ name (new_values d)\<rparr>) e1
       \<and> calls (snd (snd (b2cuserflowResourceCreate float32 client d e))) =
           calls e1 @ [CallGet (''B2C_1_'' @ name (new_values d))]"
proof -
  have eq: "b2cuserflowResourceCreate float32 client d e =
      b2cuserflowResourceRead client (d\<lparr>d_Id := ''B2C_1_'' @ name (new_values d)\<rparr>) e1"
    using assms by (simp add: b2cuserflowResourceCreate_def Let_def SetId_def)
  show ?thesis
    unfolding eq by (simp add: Read_calls)
qed

text \<open>The statement above at concrete inputs.\<close>

theorem Create_sets_id_then_reads_witness:
  "b2cuserflowResourceCreate (\<lambda>x. x) (fixed_client found found no_content no_content)
       fresh_data env0
     = b2cuserflowResourceRead (fixed_client found found no_content no_content)
         (fresh_data\<lparr>d_Id := ''B2C_1_promo''\<rparr>)
         (env0\<lparr>calls := [CallCreate (promo_entity\<lparr>ID := Some ''promo''\<rparr>)]\<rparr>)
   \<and> calls (snd (snd (b2cuserflowResourceCreate (\<lambda>x. x)
         (fixed_client found found no_content no_content) fresh_data env0)))
     = [CallCreate (promo_entity\<lparr>ID := Some ''promo''\<rparr>), CallGet ''B2C_1_promo'']"
proof -
  have c: "client_Create (fixed_client found found no_content no_content)
        \<lparr>ID = Some (name (new_values fresh_data)),
         UserFlowType = Some (user_flow_type (new_values fresh_data)),
         UserFlowTypeVersion = Some ((\<lambda>x. x) (user_flow_type_version (new_values fresh_data))),
         DefaultLanguageTag = Some (default_language_tag (new_values fresh_data)),
         IsLanguageCustomizationEnabled =
           Some (is_language_customization_enabled (new_values fresh_data))\<rparr> env0
      = ((Some promo_entity, 200, None),
         env0\<lparr>calls := [CallCreate (promo_entity\<lparr>ID := Some ''promo''\<rparr>)]\<rparr>)"
    by (simp add: fixed_Create found_def fresh_data_def promo_attrs_def promo_entity_def
          env0_def)
  have i: "ID promo_entity = Some ''B2C_1_promo''" by (simp add: promo_entity_def)
  have n: "''B2C_1_promo'' \<noteq> []" by simp
  note t = Create_sets_id_then_reads [where ?float32.0 = "\<lambda>x. x", OF c i n]
  have a: "b2cuserflowResourceCreate (\<lambda>x. x) (fixed_client found found no_content no_content)
       fresh_data env0
     = b2cuserflowResourceRead (fixed_client found found no_content no_content)
         (fresh_data\<lparr>d_Id := ''B2C_1_promo''\<rparr>)
         (env0\<lparr>calls := [CallCreate (promo_entity\<lparr>ID := Some ''promo''\<rparr>)]\<rparr>)"
    using t [THEN conjunct1] by (simp add: fresh_data_def promo_attrs_def)
  have b: "calls (snd (snd (b2cuserflowResourceCreate (\<lambda>x. x)
         (fixed_client found found no_content no_content) fresh_data env0)))
     = [CallCreate (promo_entity\<lparr>ID := Some ''promo''\<rparr>), CallGet ''B2C_1_promo'']"
    using t [THEN conjunct2] by (simp add: fresh_data_def promo_attrs_def)
  show ?thesis
    using a b by blast
qed

text \<open>
  Claim C4. The importer accepts an identifier exactly when it parses as a UUID, and
  for every name it rejects the identifier \<open>B2C_1_\<close> followed by the name, which Create
  produces.
\<close>

theorem Importer_rejects_created_ids:
  "((\<exists>v. Importer i = Inr v) = (ParseUUID i = None))
   \<and> Importer (''B2C_1_'' @ n)
       = Inl (fmt_Errorf ''specified ID (%q) is not valid: %s'' (''B2C_1_'' @ n) NotAUUID)"
proof -
  have "(\<exists>v. Importer i = Inr v) = (ParseUUID i = None)"
    by (cases "ParseUUID i")
       (simp_all add: Importer_def ValidateResourceIDPriorToImport_def importer_validate_def)
  moreover have "Importer (''B2C_1_'' @ n)
       = Inl (fmt_Errorf ''specified ID (%q) is not valid: %s'' (''B2C_1_'' @ n) NotAUUID)"
    unfolding Importer_def ValidateResourceIDPriorToImport_def importer_validate_def
    by (simp only: ParseUUID_prefixed option.case)
  ultimately show ?thesis by blast
qed

text \<open>The statement above at concrete inputs.\<close>

theorem Importer_rejects_created_ids_witness:
  "Importer ''B2C_1_promo''
     = Inl (fmt_Errorf ''specified ID (%q) is not valid: %s'' ''B2C_1_promo'' NotAUUID)
   \<and> (\<exists>v. Importer ''01234567-89ab-cdef-0123-456789ABCDEF'' = Inr v)"
proof -
  have "ParseUUID ''01234567-89ab-cdef-0123-456789ABCDEF'' = None"
    by (simp add: ParseUUID_def is_hex_def)
  then show ?thesis
    using Importer_rejects_created_ids [of "''01234567-89ab-cdef-0123-456789ABCDEF''" "''promo''"]
    by simp
qed

text \<open>
  Claim C5. When the client's Get returns an error, Read returns nil and an empty id if
  the status is 404; otherwise it returns the error with the identifier looked up as the
  argument of its message, and the resource data is unchanged.
\<close>

theorem Read_get_failure:
  assumes "client_Get client (d_Id d) e = ((userflow, status, Some er), e1)"
  shows "(status = StatusNotFound \<longrightarrow>
            b2cuserflowResourceRead client d e = (ReturnNil, d\<lparr>d_Id := []\<rparr>, e1))
       \<and> (status \<noteq> StatusNotFound \<longrightarrow>
            b2cuserflowResourceRead client d e =
              (ReturnDiags (ErrorDiagF er ''Retrieving userflow with object ID: %q''
                 [ArgString (d_Id d)]), d, e1))"
  using assms by (simp add: b2cuserflowResourceRead_def SetId_def)

text \<open>The statement above at concrete inputs.\<close>

theorem Read_get_failure_witness:
  "b2cuserflowResourceRead (fixed_client found not_found no_content no_content) promo_data env0
     = (ReturnNil, promo_data\<lparr>d_Id := []\<rparr>, env0\<lparr>calls := [CallGet ''B2C_1_promo'']\<rparr>)
   \<and> b2cuserflowResourceRead (fixed_client found server_error no_content no_content)
         promo_data env0
     = (ReturnDiags (ErrorDiagF (errors_New ''internal server error'')
          ''Retrieving userflow with object ID: %q'' [ArgString ''B2C_1_promo'']),
        promo_data, env0\<lparr>calls := [CallGet ''B2C_1_promo'']\<rparr>)"
proof -
  have g1: "client_Get (fixed_client found not_found no_content no_content) (d_Id promo_data) env0
      = ((None, 404, Some (errors_New ''not found'')),
         env0\<lparr>calls := [CallGet ''B2C_1_promo'']\<rparr>)"
    by (simp add: fixed_Get not_found_def promo_data_def env0_def)
  have g2: "client_Get (fixed_client found server_error no_content no_content)
        (d_Id promo_data) env0
      = ((None, 500, Some (errors_New ''internal server error'')),
         env0\<lparr>calls := [CallGet ''B2C_1_promo'']\<rparr>)"
    by (simp add: fixed_Get server_error_def promo_data_def env0_def)
  have d: "d_Id promo_data = ''B2C_1_promo''" by (simp add: promo_data_def)
  show ?thesis
    using Read_get_failure [OF g1] Read_get_failure [OF g2]
    by (simp add: StatusNotFound_def d)
qed

text \<open>
  Claim C6. When the client's Create returns no error and an entity whose identifier is
  nil or empty, Create returns the error "API returned nil object ID" under the summary
  "Bad API Response"; the resource data is unchanged, so the id is not set, and the
  creation request is the only call made, so no Read is performed.
\<close>

theorem Create_bad_response:
  assumes "client_Create client
             \<lparr>ID = Some (name (new_values d)),
              UserFlowType = Some (user_flow_type (new_values d)),
              UserFlowTypeVersion = Some (float32 (user_flow_type_version (new_values d))),
              DefaultLanguageTag = Some (default_language_tag (new_values d)),
              IsLanguageCustomizationEnabled =
                Some (is_language_customization_enabled (new_values d))\<rparr> e
           = ((Some resp, status, None), e1)"
    and "ID resp = None \<or> ID resp = Some []"
  shows "b2cuserflowResourceCreate float32 client d e =
           (ReturnDiags (ErrorDiagF (errors_New ''API returned nil object ID'')
              ''Bad API Response'' []), d, e1)
       \<and> calls e1 = calls e @ [CallCreate
             \<lparr>ID = Some (name (new_values d)),
              UserFlowType = Some (user_flow_type (new_values d)),
              UserFlowTypeVersion = Some (float32 (user_flow_type_version (new_values d))),
              DefaultLanguageTag = Some (default_language_tag (new_values d)),
              IsLanguageCustomizationEnabled =
                Some (is_language_customization_enabled (new_values d))\<rparr>]"
proof -
  have "calls e1 = calls e @ [CallCreate
             \<lparr>ID = Some (name (new_values d)),
              UserFlowType = Some (user_flow_type (new_values d)),
              UserFlowTypeVersion = Some (float32 (user_flow_type_version (new_values d))),
              DefaultLanguageTag = Some (default_language_tag (new_values d)),
              IsLanguageCustomizationEnabled =
                Some (is_language_customization_enabled (new_values d))\<rparr>]"
    using assms(1) by (auto simp: client_Create_def split: prod.splits)
  moreover have "b2cuserflowResourceCreate float32 client d e =
           (ReturnDiags (ErrorDiagF (errors_New ''API returned nil object ID'')
              ''Bad API Response'' []), d, e1)"
    using assms by (auto simp add: b2cuserflowResourceCreate_def Let_def)
  ultimately show ?thesis by blast
qed

text \<open>The statement above at concrete inputs.\<close>

theorem Create_bad_response_witness:
  "b2cuserflowResourceCreate (\<lambda>x. x)
       (fixed_client (Some (promo_entity\<lparr>ID := Some []\<rparr>), 201, None) found
          no_content no_content) fresh_data env0
     = (ReturnDiags (ErrorDiagF (errors_New ''API returned nil object ID'')
          ''Bad API Response'' []),
        fresh_data, env0\<lparr>calls := [CallCreate (promo_entity\<lparr>ID := Some ''promo''\<rparr>)]\<rparr>)"
proof -
  have c: "client_Create
        (fixed_client (Some (promo_entity\<lparr>ID := Some []\<rparr>), 201, None) found
           no_content no_content)
        \<lparr>ID = Some (name (new_values fresh_data)),
         UserFlowType = Some (user_flow_type (new_values fresh_data)),
         UserFlowTypeVersion = Some ((\<lambda>x. x) (user_flow_type_version (new_values fresh_data))),
         DefaultLanguageTag = Some (default_language_tag (new_values fresh_data)),
         IsLanguageCustomizationEnabled =
           Some (is_language_customization_enabled (new_values fresh_data))\<rparr> env0
      = ((Some (promo_entity\<lparr>ID := Some []\<rparr>), 201, None),
         env0\<lparr>calls := [CallCreate (promo_entity\<lparr>ID := Some ''promo''\<rparr>)]\<rparr>)"
    by (simp add: fixed_Create fresh_data_def promo_attrs_def promo_entity_def env0_def)
  have i: "ID (promo_entity\<lparr>ID := Some []\<rparr>) = None \<or> ID (promo_entity\<lparr>ID := Some []\<rparr>) = Some []"
    by simp
  show ?thesis
    using Create_bad_response [where ?float32.0 = "\<lambda>x. x", OF c i, THEN conjunct1] .
qed

text \<open>
  Claim C7. When none of the three immutable fields has changed, Update makes one update
  request, whose entity carries the identifier, the default language tag and the language
  customization flag, with the user flow type and its version left nil; the request is
  followed by nothing (the update failed) or by the Get of the Read.
\<close>

theorem Update_request_payload:
  assumes "\<not> HasChange d ''user_flow_type''"
    and "\<not> HasChange d ''user_flow_type_version''"
    and "\<not> HasChange d ''name''"
  shows "\<exists>rest. calls (snd (snd (b2cuserflowResourceUpdate client d e))) =
           calls e @ CallUpdate
             \<lparr>ID = Some (d_Id d), UserFlowType = None, UserFlowTypeVersion = None,
              DefaultLanguageTag = Some (default_language_tag (new_values d)),
              IsLanguageCustomizationEnabled =
                Some (is_language_customization_enabled (new_values d))\<rparr> # rest
         \<and> (rest = [] \<or> rest = [CallGet (d_Id d)])"
  using assms
  by (auto simp: b2cuserflowResourceUpdate_def Let_def client_Update_def Read_calls
           split: prod.splits option.splits)

text \<open>The statement above at concrete inputs.\<close>

theorem Update_request_payload_witness:
  "\<exists>rest. calls (snd (snd (b2cuserflowResourceUpdate
        (fixed_client found found no_content no_content)
        (promo_data\<lparr>new_values := promo_attrs\<lparr>is_language_customization_enabled := True\<rparr>\<rparr>)
        env0)))
     = CallUpdate \<lparr>ID = Some ''B2C_1_promo'', UserFlowType = None, UserFlowTypeVersion = None,
         DefaultLanguageTag = Some ''en'', IsLanguageCustomizationEnabled = Some True\<rparr> # rest
     \<and> (rest = [] \<or> rest = [CallGet ''B2C_1_promo''])"
proof -
  let ?d = "promo_data\<lparr>new_values := promo_attrs\<lparr>is_language_customization_enabled := True\<rparr>\<rparr>"
  have n1: "\<not> HasChange ?d ''user_flow_type''"
    by (simp add: HasChange_user_flow_type promo_data_def promo_attrs_def)
  have n2: "\<not> HasChange ?d ''user_flow_type_version''"
    by (simp add: HasChange_user_flow_type_version promo_data_def promo_attrs_def)
  have n3: "\<not> HasChange ?d ''name''"
    by (simp add: HasChange_name promo_data_def promo_attrs_def)
  show ?thesis
    using Update_request_payload [OF n1 n2 n3,
        of "fixed_client found found no_content no_content" env0]
    by (simp add: promo_data_def promo_attrs_def env0_def)
qed

text \<open>
  Claim C8. The probe runs the client's Get with the flag \<open>DisableRetries\<close> set, and the
  flag is still set afterwards. A Get without error gives \<open>true\<close> and the waiter goes on
  polling; a Get error with status 404 gives \<open>false\<close> and the waiter ends with success;
  any other Get error is returned as it is and the waiter ends with that error.
\<close>

theorem deletion_probe_outcomes:
  assumes "client_Get client objectId (e\<lparr>DisableRetries := True\<rparr>)
             = ((userflow, status, err), e1)"
  shows "snd (deletion_probe client objectId e) = e1 \<and> DisableRetries e1
       \<and> (err = None \<longrightarrow>
            fst (deletion_probe client objectId e) = Inr True
          \<and> WaitForDeletion (Suc n) (deletion_probe client objectId) e
              = WaitForDeletion n (deletion_probe client objectId) e1)
       \<and> (err \<noteq> None \<and> status = StatusNotFound \<longrightarrow>
            fst (deletion_probe client objectId e) = Inr False
          \<and> WaitForDeletion (Suc n) (deletion_probe client objectId) e = (None, e1))
       \<and> (err \<noteq> None \<and> status \<noteq> StatusNotFound \<longrightarrow>
            fst (deletion_probe client objectId e) = Inl (the err)
          \<and> WaitForDeletion (Suc n) (deletion_probe client objectId) e = (err, e1))"
proof -
  have p: "deletion_probe client objectId e =
      ((case err of None \<Rightarrow> Inr True
        | Some er \<Rightarrow> if status = StatusNotFound then Inr False else Inl er), e1)"
    using assms by (simp add: deletion_probe_def Let_def split: option.splits)
  have f: "DisableRetries e1"
    using client_Get_flag [OF assms] by simp
  show ?thesis
    using f by (cases err) (simp_all add: p)
qed

text \<open>The statement above at concrete inputs.\<close>

theorem deletion_probe_outcomes_witness:
  "fst (deletion_probe (fixed_client found not_found no_content no_content)
          ''B2C_1_promo'' env0) = Inr False
   \<and> fst (deletion_probe (fixed_client found found no_content no_content)
          ''B2C_1_promo'' env0) = Inr True
   \<and> WaitForDeletion (Suc 0)
        (deletion_probe (fixed_client found server_error no_content no_content) ''B2C_1_promo'')
        env0
     = (Some (errors_New ''internal server error''),
        env0\<lparr>DisableRetries := True, calls := [CallGet ''B2C_1_promo'']\<rparr>)"
proof -
  have g1: "client_Get (fixed_client found not_found no_content no_content) ''B2C_1_promo''
        (env0\<lparr>DisableRetries := True\<rparr>)
      = ((None, 404, Some (errors_New ''not found'')),
         env0\<lparr>DisableRetries := True, calls := [CallGet ''B2C_1_promo'']\<rparr>)"
    by (simp add: fixed_Get not_found_def env0_def)
  have g2: "client_Get (fixed_client found found no_content no_content) ''B2C_1_promo''
        (env0\<lparr>DisableRetries := True\<rparr>)
      = ((Some promo_entity, 200, None),
         env0\<lparr>DisableRetries := True, calls := [CallGet ''B2C_1_promo'']\<rparr>)"
    by (simp add: fixed_Get found_def env0_def)
  have g3: "client_Get (fixed_client found server_error no_content no_content) ''B2C_1_promo''
        (env0\<lparr>DisableRetries := True\<rparr>)
      = ((None, 500, Some (errors_New ''internal server error'')),
         env0\<lparr>DisableRetries := True, calls := [CallGet ''B2C_1_promo'']\<rparr>)"
    by (simp add: fixed_Get server_error_def env0_def)
  show ?thesis
    using deletion_probe_outcomes [OF g1, of 0] deletion_probe_outcomes [OF g2, of 0]
      deletion_probe_outcomes [OF g3, of 0]
    by (simp add: StatusNotFound_def)
qed

text \<open>
  Claim C9. When the deletion request succeeds and the waiter returns an error, Delete
  returns that error with the identifier as the argument of its message, and the resource
  data, the id included, is unchanged.
\<close>

theorem Delete_wait_failure:
  assumes "client_Delete client (d_Id d) e = ((status, None), e1)"
    and "wait (deletion_probe client (d_Id d)) e1 = (Some er, e2)"
  shows "b2cuserflowResourceDelete wait client d e =
           (ReturnDiags (ErrorDiagF er ''Waiting for deletion of userflow with object ID %q''
              [ArgString (d_Id d)]), d, e2)"
  using assms by (simp add: b2cuserflowResourceDelete_def Let_def)

text \<open>The statement above at concrete inputs.\<close>

theorem Delete_wait_failure_witness:
  "b2cuserflowResourceDelete (WaitForDeletion (Suc (Suc 0)))
       (fixed_client found found no_content no_content) promo_data env0
     = (ReturnDiags (ErrorDiagF DeadlineElapsed
          ''Waiting for deletion of userflow with object ID %q'' [ArgString ''B2C_1_promo'']),
        promo_data,
        env0\<lparr>DisableRetries := True,
             calls := [CallDelete ''B2C_1_promo'', CallGet ''B2C_1_promo'',
                       CallGet ''B2C_1_promo'']\<rparr>)"
proof -
  have d: "d_Id promo_data = ''B2C_1_promo''" by (simp add: promo_data_def)
  have dl: "client_Delete (fixed_client found found no_content no_content) (d_Id promo_data) env0
      = ((204, None), env0\<lparr>calls := [CallDelete ''B2C_1_promo'']\<rparr>)"
    by (simp add: fixed_Delete no_content_def d env0_def)
  have w: "WaitForDeletion (Suc (Suc 0))
        (deletion_probe (fixed_client found found no_content no_content) (d_Id promo_data))
        (env0\<lparr>calls := [CallDelete ''B2C_1_promo'']\<rparr>)
      = (Some DeadlineElapsed,
         env0\<lparr>DisableRetries := True,
              calls := [CallDelete ''B2C_1_promo'', CallGet ''B2C_1_promo'',
                        CallGet ''B2C_1_promo'']\<rparr>)"
    by (simp add: deletion_probe_def fixed_Get found_def d env0_def)
  show ?thesis
    using Delete_wait_failure [where wait = "WaitForDeletion (Suc (Suc 0))", OF dl w]
    by (simp add: d)
qed

text \<open>
  Claim C10. After a Get without error, Read panics exactly when one of the five pointer
  fields of the entity is nil; when all five are present it returns nil and has copied
  them into the resource data.
\<close>

theorem Read_nil_field_panics:
  assumes "client_Get client (d_Id d) e = ((Some u, status, None), e1)"
  shows "fst (b2cuserflowResourceRead client d e) =
           (if ID u = None \<or> UserFlowType u = None \<or> UserFlowTypeVersion u = None
               \<or> DefaultLanguageTag u = None \<or> IsLanguageCustomizationEnabled u = None
            then Panics else ReturnNil)
       \<and> (ID u \<noteq> None \<and> UserFlowType u \<noteq> None \<and> UserFlowTypeVersion u \<noteq> None
              \<and> DefaultLanguageTag u \<noteq> None \<and> IsLanguageCustomizationEnabled u \<noteq> None
            \<longrightarrow> b2cuserflowResourceRead client d e =
                  (ReturnNil,
                   d\<lparr>new_values := (new_values d)\<lparr>object_id := the (ID u),
                        user_flow_type := the (UserFlowType u),
                        user_flow_type_version := the (UserFlowTypeVersion u),
                        default_language_tag := the (DefaultLanguageTag u),
                        is_language_customization_enabled :=
                          the (IsLanguageCustomizationEnabled u)\<rparr>\<rparr>,
                   e1))"
  using assms
  by (auto simp: b2cuserflowResourceRead_def set_fields_def Let_def Set_object_id_def
        Set_user_flow_type_def Set_user_flow_type_version_def Set_default_language_tag_def
        Set_is_language_customization_enabled_def split: option.splits)

text \<open>The statement above at concrete inputs.\<close>

theorem Read_nil_field_panics_witness:
  "fst (b2cuserflowResourceRead
          (fixed_client found (Some (promo_entity\<lparr>DefaultLanguageTag := None\<rparr>), 200, None)
             no_content no_content) promo_data env0) = Panics
   \<and> b2cuserflowResourceRead (fixed_client found found no_content no_content) promo_data env0
     = (ReturnNil,
        promo_data\<lparr>new_values := promo_attrs\<lparr>object_id := ''B2C_1_promo''\<rparr>\<rparr>,
        env0\<lparr>calls := [CallGet ''B2C_1_promo'']\<rparr>)"
proof -
  have g1: "client_Get
        (fixed_client found (Some (promo_entity\<lparr>DefaultLanguageTag := None\<rparr>), 200, None)
           no_content no_content) (d_Id promo_data) env0
      = ((Some (promo_entity\<lparr>DefaultLanguageTag := None\<rparr>), 200, None),
         env0\<lparr>calls := [CallGet ''B2C_1_promo'']\<rparr>)"
    by (simp add: fixed_Get promo_data_def env0_def)
  have g2: "client_Get (fixed_client found found no_content no_content) (d_Id promo_data) env0
      = ((Some promo_entity, 200, None), env0\<lparr>calls := [CallGet ''B2C_1_promo'']\<rparr>)"
    by (simp add: fixed_Get found_def promo_data_def env0_def)
  have p1: "fst (b2cuserflowResourceRead
          (fixed_client found (Some (promo_entity\<lparr>DefaultLanguageTag := None\<rparr>), 200, None)
             no_content no_content) promo_data env0) = Panics"
    using Read_nil_field_panics [OF g1] by (simp add: promo_entity_def)
  have p2: "b2cuserflowResourceRead (fixed_client found found no_content no_content)
        promo_data env0
      = (ReturnNil,
         promo_data\<lparr>new_values := (new_values promo_data)\<lparr>object_id := ''B2C_1_promo'',
           user_flow_type := ''signUp'', user_flow_type_version := 1,
           default_language_tag := ''en'', is_language_customization_enabled := False\<rparr>\<rparr>,
         env0\<lparr>calls := [CallGet ''B2C_1_promo'']\<rparr>)"
    using Read_nil_field_panics [OF g2] by (simp add: promo_entity_def)
  show ?thesis
    using p1 p2 by (simp add: promo_data_def promo_attrs_def)
qed

end
